theory Spec2Isabelle
  imports Main "HOL-Library.Word"
begin

section \<open>Retry options\<close>

text \<open>
  The struct \<open>RetryOptions\<close> of \<open>client.go\<close>. Go's \<open>int\<close> fields are read as
  mathematical integers: the code only compares and copies them, and the loop counter that
  runs up to \<open>Retries\<close> would need \<open>2^63\<close> attempts before it could wrap.
\<close>

record RetryOptions =
  Retries :: int
  RetryAboveCode :: int
  RetryCodes :: "int list"

definition NewDefaultRetryOptions :: RetryOptions where
  "NewDefaultRetryOptions = \<lparr>Retries = 0, RetryAboveCode = 1, RetryCodes = []\<rparr>"

text \<open>The inner loop of \<open>complete\<close>: append every code that the slice does not contain yet.\<close>

fun appendCodes :: "int list \<Rightarrow> int list \<Rightarrow> int list" where
  "appendCodes rc [] = rc"
| "appendCodes rc (code # codes) =
     appendCodes (if code \<notin> set rc then rc @ [code] else rc) codes"

text \<open>The body of the outer loop of \<open>complete\<close>, for one override \<open>opt\<close>.\<close>

definition completeOne :: "RetryOptions \<Rightarrow> RetryOptions \<Rightarrow> RetryOptions" where
  "completeOne r opt =
     (let r = (if Retries opt > 0 then r\<lparr>Retries := Retries opt\<rparr> else r);
          r = (if RetryAboveCode opt > 0 then r\<lparr>RetryAboveCode := RetryAboveCode opt\<rparr> else r)
      in r\<lparr>RetryCodes := appendCodes (RetryCodes r) (RetryCodes opt)\<rparr>)"

fun complete :: "RetryOptions \<Rightarrow> RetryOptions list \<Rightarrow> RetryOptions" where
  "complete r [] = r"
| "complete r (opt # opts) = complete (completeOne r opt) opts"

definition canRetry :: "RetryOptions \<Rightarrow> int \<Rightarrow> bool" where
  "canRetry r statusCode =
     (if RetryAboveCode r > 0 \<and> statusCode > RetryAboveCode r then True
      else statusCode \<in> set (RetryCodes r))"


section \<open>Bytes\<close>

text \<open>
  Byte slices are \<open>string\<close>s (lists of 8-bit characters). \<open>HasPrefix\<close> and
  \<open>TrimPrefix\<close> are the functions of Go's package \<open>bytes\<close>.
\<close>

definition HasPrefix :: "string \<Rightarrow> string \<Rightarrow> bool" where
  "HasPrefix s pre = (length pre \<le> length s \<and> take (length pre) s = pre)"

definition TrimPrefix :: "string \<Rightarrow> string \<Rightarrow> string" where
  "TrimPrefix s pre = (if HasPrefix s pre then drop (length pre) s else s)"

text \<open>
  \<open>bytes.TrimSpace\<close> removes leading and trailing white space as Unicode defines it
  (\<open>unicode.IsSpace\<close>): the six ASCII characters tab, line feed, vertical tab, form feed,
  carriage return and space, and the UTF-8 encodings of U+0085, U+00A0, U+1680,
  U+2000 to U+200A, U+2028, U+2029, U+202F, U+205F and U+3000. Any other byte sequence
  decodes to a rune that is not white space and stops the trimming.
\<close>

definition space1 :: "char \<Rightarrow> bool" where
  "space1 c = (c = CHR 0x09 \<or> c = CHR 0x0A \<or> c = CHR 0x0B \<or> c = CHR 0x0C
                \<or> c = CHR 0x0D \<or> c = CHR 0x20)"

definition space2 :: "char \<Rightarrow> char \<Rightarrow> bool" where
  "space2 a b = (a = CHR 0xC2 \<and> (b = CHR 0x85 \<or> b = CHR 0xA0))"

definition space3 :: "char \<Rightarrow> char \<Rightarrow> char \<Rightarrow> bool" where
  "space3 a b c =
     ((a = CHR 0xE1 \<and> b = CHR 0x9A \<and> c = CHR 0x80)
      \<or> (a = CHR 0xE2 \<and> b = CHR 0x80
          \<and> ((of_char c :: nat) \<in> {0x80..0x8A} \<or> c = CHR 0xA8 \<or> c = CHR 0xA9 \<or> c = CHR 0xAF))
      \<or> (a = CHR 0xE2 \<and> b = CHR 0x81 \<and> c = CHR 0x9F)
      \<or> (a = CHR 0xE3 \<and> b = CHR 0x80 \<and> c = CHR 0x80))"

text \<open>\<open>bytes.TrimLeftFunc(s, unicode.IsSpace)\<close>: drop white-space runes from the front.\<close>

fun TrimLeftSpace :: "string \<Rightarrow> string" where
  "TrimLeftSpace (a # b # c # s) =
     (if space1 a then TrimLeftSpace (b # c # s)
      else if space2 a b then TrimLeftSpace (c # s)
      else if space3 a b c then TrimLeftSpace s
      else a # b # c # s)"
| "TrimLeftSpace [a, b] =
     (if space1 a then TrimLeftSpace [b]
      else if space2 a b then []
      else [a, b])"
| "TrimLeftSpace [a] = (if space1 a then [] else [a])"
| "TrimLeftSpace [] = []"

text \<open>
  \<open>bytes.TrimRightFunc(s, unicode.IsSpace)\<close>: drop white-space runes from the back. The
  function walks the reversed slice, so a rune's bytes arrive last byte first.
\<close>

fun TrimRightSpaceRev :: "string \<Rightarrow> string" where
  "TrimRightSpaceRev (c # b # a # s) =
     (if space1 c then TrimRightSpaceRev (b # a # s)
      else if space2 b c then TrimRightSpaceRev (a # s)
      else if space3 a b c then TrimRightSpaceRev s
      else c # b # a # s)"
| "TrimRightSpaceRev [c, b] =
     (if space1 c then TrimRightSpaceRev [b]
      else if space2 b c then []
      else [c, b])"
| "TrimRightSpaceRev [c] = (if space1 c then [] else [c])"
| "TrimRightSpaceRev [] = []"

definition TrimSpace :: "string \<Rightarrow> string" where
  "TrimSpace s = rev (TrimRightSpaceRev (rev (TrimLeftSpace s)))"


section \<open>Errors\<close>

text \<open>
  Modelled from the spec: the declarations of \<open>APIError\<close>, \<open>ErrorResponse\<close> and
  \<open>RequestError\<close> are not among the source files. The spec describes the envelope as
  \<open>{error: {message, code, ...}}\<close>; the records keep the fields that \<open>client.go\<close> and the
  stream reader touch: the message and the HTTP status code of an \<open>APIError\<close>, the optional
  \<open>Error\<close> of an \<open>ErrorResponse\<close>, the status code and the wrapped text of a
  \<open>RequestError\<close>.
\<close>

record APIError =
  Message :: string
  HTTPStatusCode :: int

record ErrorResponse =
  Error :: "APIError option"

text \<open>What \<open>handleErrorResp\<close> returns: a pointer to an \<open>APIError\<close> or to a \<open>RequestError\<close>.\<close>

datatype classified =
    IsAPIError APIError
  | IsRequestError int string

text \<open>
  The entries of the slice \<open>failures\<close>. The code formats them into strings; the model keeps
  the values that go into the format: the try \<open>i+1\<close>, the maximum \<open>Retries+1\<close>, and the
  error or status.
\<close>

datatype failureNote =
    FailedToSend int int string
  | ErrorResponseReceived int int classified
  | ExitNonRetriable int int int string
  | ExitCanceled int int string

text \<open>
  The error values of the package. \<open>EOF\<close> is \<open>io.EOF\<close>, \<open>ReadFailure\<close> any other error of
  the response body, \<open>IndexOutOfRange\<close> the run-time panic of an index expression.
\<close>

datatype error =
    EOF
  | ReadFailure string
  | ErrTooManyEmptyStreamMessages
  | WrappedAPIError "APIError option"
  | UnmarshalFailure string
  | FailedToReadRequestBody string
  | NonRetriableStatusCode int string
  | CanceledContext string
  | ExceededRetryLimits failureNote
  | IndexOutOfRange

text \<open>
  The functions of \<open>encoding/json\<close> that the package calls, for a payload type \<open>'a\<close>:
  they belong to Go's standard library and are parameters of the model. \<open>Inl\<close> is a
  decoding error. \<open>UnmarshalErrorResponse\<close> is \<open>json.Unmarshal\<close> into a pointer to an
  \<open>ErrorResponse\<close>, which the JSON value \<open>null\<close> leaves nil (\<open>None\<close>); \<open>zero\<close> is
  the zero value \<open>*new(T)\<close>.
\<close>

record 'a json =
  Unmarshal :: "string \<Rightarrow> string + 'a"
  UnmarshalErrorResponse :: "string \<Rightarrow> string + ErrorResponse option"
  Decode :: "string \<Rightarrow> string + 'a"
  DecodeErrorResponse :: "string \<Rightarrow> string + ErrorResponse"
  zero :: 'a

section \<open>The stream reader\<close>

text \<open>
  A response body: the bytes that are still to come, and the error that a read returns once
  they are used up (\<open>EOF\<close> when the server closed the stream cleanly).
\<close>

record body =
  pending :: string
  atEnd :: error

text \<open>
  \<open>bufio.Reader.ReadBytes\<close>: the bytes up to and including the first delimiter; when the
  body ends before a delimiter, what was read together with the body's error.
\<close>

definition ReadBytes :: "body \<Rightarrow> char \<Rightarrow> string \<times> error option \<times> body" where
  "ReadBytes b delim =
     (case dropWhile (\<lambda>c. c \<noteq> delim) (pending b) of
        [] \<Rightarrow> (pending b, Some (atEnd b), b\<lparr>pending := []\<rparr>)
      | d # rest \<Rightarrow> (takeWhile (\<lambda>c. c \<noteq> delim) (pending b) @ [d], None, b\<lparr>pending := rest\<rparr>))"

definition headerData :: string where
  "headerData = ''data: ''"

definition errorPrefix :: string where
  "errorPrefix = ''data: {\"error\":''"

text \<open>
  The struct \<open>streamReader\<close>, without the response and the headers, which the reading does
  not use. \<open>emptyMessagesLimit\<close> is a Go \<open>uint\<close>, as is the local counter compared with it;
  both are natural numbers here, since the counter starts at zero in every call and would
  have to count \<open>2^64\<close> lines of one call to wrap.
\<close>

record streamReader =
  emptyMessagesLimit :: nat
  isFinished :: bool
  reader :: body
  errBuffer :: string

definition unmarshalError :: "'a json \<Rightarrow> streamReader \<Rightarrow> ErrorResponse option" where
  "unmarshalError js stream =
     (let errBytes = errBuffer stream in
      if length errBytes = 0 then None
      else (case UnmarshalErrorResponse js errBytes of
              Inl err \<Rightarrow> None
            | Inr errResp \<Rightarrow> errResp))"

text \<open>
  The loop of \<open>processLines\<close>. Its two local variables are arguments; the result is the
  returned pair (an error, or a payload with a nil error) and the reader as the call leaves
  it. \<open>bytes.Buffer.Write\<close> never returns an error, so the branch on \<open>writeErr\<close> has no
  counterpart.
\<close>

function processLinesLoop ::
  "'a json \<Rightarrow> nat \<Rightarrow> bool \<Rightarrow> streamReader \<Rightarrow> (error + 'a) \<times> streamReader" where
  "processLinesLoop js emptyMessagesCount hasErrorPrefix stream =
     (case ReadBytes (reader stream) CHR 0x0A of
        (rawLine, readErr, rd) \<Rightarrow>
          let stream = stream\<lparr>reader := rd\<rparr> in
          if readErr \<noteq> None \<or> hasErrorPrefix then
            (case unmarshalError js stream of
               Some respErr \<Rightarrow> (Inl (WrappedAPIError (Error respErr)), stream)
             | None \<Rightarrow>
                 (case readErr of
                    Some e \<Rightarrow> (Inl e, stream)
                  | None \<Rightarrow> (Inr (zero js), stream)))
          else
            let noSpaceLine = TrimSpace rawLine;
                hasErrorPrefix = (if HasPrefix noSpaceLine errorPrefix then True
                                  else hasErrorPrefix)
            in
            if \<not> HasPrefix noSpaceLine headerData \<or> hasErrorPrefix then
              let noSpaceLine = (if hasErrorPrefix then TrimPrefix noSpaceLine headerData
                                 else noSpaceLine);
                  stream = stream\<lparr>errBuffer := errBuffer stream @ noSpaceLine\<rparr>;
                  emptyMessagesCount = emptyMessagesCount + 1
              in
              if emptyMessagesCount > emptyMessagesLimit stream then
                (Inl ErrTooManyEmptyStreamMessages, stream)
              else processLinesLoop js emptyMessagesCount hasErrorPrefix stream
            else
              let noPrefixLine = TrimPrefix noSpaceLine headerData in
              if noPrefixLine = ''[DONE]'' then
                (Inl EOF, stream\<lparr>isFinished := True\<rparr>)
              else
                (case Unmarshal js noPrefixLine of
                   Inl unmarshalErr \<Rightarrow> (Inl (UnmarshalFailure unmarshalErr), stream)
                 | Inr response \<Rightarrow> (Inr response, stream)))"
  by pat_completeness auto


lemma ReadBytes_shorter:
  "(l, None, b') = ReadBytes b d \<Longrightarrow> length (pending b') < length (pending b)"
  using length_dropWhile_le [of "\<lambda>c. c \<noteq> d" "pending b"]
  by (auto simp: ReadBytes_def split: list.splits)

termination processLinesLoop
  apply (relation "measure (\<lambda>(js, n, h, st). length (pending (reader st)))")
   apply simp
  apply (auto dest: ReadBytes_shorter)
  done

definition processLines :: "'a json \<Rightarrow> streamReader \<Rightarrow> (error + 'a) \<times> streamReader" where
  "processLines js stream = processLinesLoop js 0 False stream"

definition Recv :: "'a json \<Rightarrow> streamReader \<Rightarrow> (error + 'a) \<times> streamReader" where
  "Recv js stream =
     (if isFinished stream then (Inl EOF, stream) else processLines js stream)"

section \<open>The dispatcher\<close>

record response =
  StatusCode :: int
  Status :: string
  Body :: body

text \<open>The pair \<open>(resp, err)\<close> that \<open>HTTPClient.Do\<close> returns.\<close>

datatype doResult =
    DoFailed string
  | DoReturned response

definition isFailureStatusCode :: "response \<Rightarrow> bool" where
  "isFailureStatusCode resp = (StatusCode resp < 200 \<or> StatusCode resp \<ge> 400)"

definition handleErrorResp :: "'a json \<Rightarrow> response \<Rightarrow> classified" where
  "handleErrorResp js resp =
     (let data = pending (Body resp) in
      case DecodeErrorResponse js data of
        Inr errRes \<Rightarrow>
          (case Error errRes of
             Some e \<Rightarrow>
               if Message e \<noteq> [] then IsAPIError (e\<lparr>HTTPStatusCode := StatusCode resp\<rparr>)
               else IsRequestError (StatusCode resp) data
           | None \<Rightarrow> IsRequestError (StatusCode resp) data)
      | Inl err \<Rightarrow> IsRequestError (StatusCode resp) data)"

text \<open>
  The argument \<open>v\<close> of \<open>decodeResponse\<close>: nil, a pointer to a string, or a pointer to any
  other value, which the JSON decoder fills. The model returns what the code stores
  through the pointer.
\<close>

datatype sink = NilSink | StringSink | ValueSink

datatype 'a decoded = Untouched | Text string | Value 'a

definition decodeString :: "body \<Rightarrow> error + 'a decoded" where
  "decodeString b = (if atEnd b = EOF then Inr (Text (pending b)) else Inl (atEnd b))"

definition decodeResponse :: "'a json \<Rightarrow> body \<Rightarrow> sink \<Rightarrow> error + 'a decoded" where
  "decodeResponse js b v =
     (case v of
        NilSink \<Rightarrow> Inr Untouched
      | StringSink \<Rightarrow> decodeString b
      | ValueSink \<Rightarrow>
          (case Decode js (pending b) of
             Inl err \<Rightarrow> Inl (UnmarshalFailure err)
           | Inr x \<Rightarrow> Inr (Value x)))"

text \<open>
  What the surroundings of one call decide: the result of the \<open>i\<close>-th call of
  \<open>HTTPClient.Do\<close>, the number that the random generator draws for the jitter of try
  \<open>i\<close>, whether the context is done before the timer of try \<open>i\<close> fires, and the error of
  the context.
\<close>

record world =
  httpDo :: "nat \<Rightarrow> doResult"
  draw :: "nat \<Rightarrow> nat"
  ctxDone :: "nat \<Rightarrow> bool"
  ctxErr :: string

text \<open>
  Durations are Go's \<open>time.Duration\<close>, a signed 64-bit count of nanoseconds:
  \<open>baseDelay * time.Duration(1<<i)\<close> wraps, and a shift by 64 or more gives 0.
  \<open>rand.Int63n(n)\<close> returns a number from 0 up to, not including, \<open>n\<close>; the model takes
  the draw modulo \<open>n\<close>. \<open>backoff\<close> is the duration handed to \<open>time.After\<close>.
\<close>

definition baseDelay :: "64 word" where
  "baseDelay = 200000000"

definition Int63n :: "world \<Rightarrow> nat \<Rightarrow> 64 word \<Rightarrow> 64 word" where
  "Int63n w i n = word_of_nat (draw w i mod unat n)"

definition backoff :: "world \<Rightarrow> nat \<Rightarrow> int" where
  "backoff w i =
     (let delay = baseDelay * push_bit i 1;
          jitter = Int63n w i baseDelay
      in sint (delay + jitter))"

text \<open>
  What a call does, in order: \<open>Sent i r\<close> is try \<open>i\<close> with the result \<open>r\<close> of the
  transport, \<open>Slept i d\<close> a wait of \<open>d\<close> nanoseconds that ran to its end after try \<open>i\<close>,
  \<open>Interrupted i\<close> a wait after try \<open>i\<close> that the context ended.
\<close>

datatype event =
    Sent nat doResult
  | Slept nat int
  | Interrupted nat

text \<open>
  The result of a call: the returned value, the slice \<open>failures\<close> as it is when the call
  returns, and the events of the call.
\<close>

record 'r outcome =
  returned :: "error + 'r"
  trail :: "failureNote list"
  events :: "event list"

definition after :: "event list \<Rightarrow> 'r outcome \<Rightarrow> 'r outcome" where
  "after evs out = out\<lparr>events := evs @ events out\<rparr>"

function sendRequestLoop ::
  "'a json \<Rightarrow> world \<Rightarrow> RetryOptions \<Rightarrow> sink \<Rightarrow> nat \<Rightarrow> failureNote list
     \<Rightarrow> 'a decoded outcome" where
  "sendRequestLoop js w options v i failures =
     (if int i \<le> Retries options then
        (case httpDo w i of
           DoReturned resp \<Rightarrow>
             if \<not> isFailureStatusCode resp then
               \<lparr>returned = decodeResponse js (Body resp) v, trail = failures,
                events = [Sent i (DoReturned resp)]\<rparr>
             else
               let failures = failures @
                     [ErrorResponseReceived (int i + 1) (Retries options + 1)
                        (handleErrorResp js resp)]
               in
               if \<not> canRetry options (StatusCode resp) then
                 \<lparr>returned = Inl (NonRetriableStatusCode (StatusCode resp) (Status resp)),
                  trail = failures @
                    [ExitNonRetriable (int i + 1) (Retries options + 1)
                       (StatusCode resp) (Status resp)],
                  events = [Sent i (DoReturned resp)]\<rparr>
               else if ctxDone w i then
                 \<lparr>returned = Inl (CanceledContext (ctxErr w)), trail = failures,
                  events = [Sent i (DoReturned resp), Interrupted i]\<rparr>
               else
                 after [Sent i (DoReturned resp), Slept i (backoff w i)]
                   (sendRequestLoop js w options v (Suc i) failures)
         | DoFailed err \<Rightarrow>
             after [Sent i (DoFailed err)]
               (sendRequestLoop js w options v (Suc i)
                  (failures @ [FailedToSend (int i + 1) (Retries options + 1) err])))
      else
        \<lparr>returned = (if failures = [] then Inl IndexOutOfRange
                     else Inl (ExceededRetryLimits (last failures))),
         trail = failures, events = []\<rparr>)"
  by pat_completeness auto
termination
  by (relation "measure (\<lambda>(js, w, options, v, i, failures). nat (Retries options + 1 - int i))")
    auto

text \<open>The request body: absent, readable to its end, or failing while it is read.\<close>

datatype requestBody = NoBody | BodyBytes string | BodyUnreadable string

definition sendRequest ::
  "'a json \<Rightarrow> world \<Rightarrow> requestBody \<Rightarrow> sink \<Rightarrow> RetryOptions list \<Rightarrow> 'a decoded outcome" where
  "sendRequest js w reqBody v retryOpts =
     (let options = complete NewDefaultRetryOptions retryOpts in
      case reqBody of
        BodyUnreadable err \<Rightarrow>
          \<lparr>returned = Inl (FailedToReadRequestBody err), trail = [], events = []\<rparr>
      | _ \<Rightarrow> sendRequestLoop js w options v 0 [])"

function sendRequestStreamLoop ::
  "'a json \<Rightarrow> world \<Rightarrow> nat \<Rightarrow> RetryOptions \<Rightarrow> nat \<Rightarrow> failureNote list
     \<Rightarrow> streamReader outcome" where
  "sendRequestStreamLoop js w limit options i failures =
     (if int i \<le> Retries options then
        (case httpDo w i of
           DoReturned resp \<Rightarrow>
             if \<not> isFailureStatusCode resp then
               \<lparr>returned = Inr \<lparr>emptyMessagesLimit = limit, isFinished = False,
                                 reader = Body resp, errBuffer = []\<rparr>,
                trail = failures, events = [Sent i (DoReturned resp)]\<rparr>
             else
               let failures = failures @
                     [ErrorResponseReceived (int i + 1) (Retries options + 1)
                        (handleErrorResp js resp)]
               in
               if \<not> canRetry options (StatusCode resp) then
                 \<lparr>returned = Inl (NonRetriableStatusCode (StatusCode resp) (Status resp)),
                  trail = failures @
                    [ExitNonRetriable (int i + 1) (Retries options + 1)
                       (StatusCode resp) (Status resp)],
                  events = [Sent i (DoReturned resp)]\<rparr>
               else if ctxDone w i then
                 \<lparr>returned = Inl (CanceledContext (ctxErr w)),
                  trail = failures @
                    [ExitCanceled (int i + 1) (Retries options + 1) (ctxErr w)],
                  events = [Sent i (DoReturned resp), Interrupted i]\<rparr>
               else
                 after [Sent i (DoReturned resp), Slept i (backoff w i)]
                   (sendRequestStreamLoop js w limit options (Suc i) failures)
         | DoFailed err \<Rightarrow>
             after [Sent i (DoFailed err)]
               (sendRequestStreamLoop js w limit options (Suc i)
                  (failures @ [FailedToSend (int i + 1) (Retries options + 1) err])))
      else
        \<lparr>returned = (if failures = [] then Inl IndexOutOfRange
                     else Inl (ExceededRetryLimits (last failures))),
         trail = failures, events = []\<rparr>)"
  by pat_completeness auto
termination
  by (relation "measure (\<lambda>(js, w, limit, options, i, failures). nat (Retries options + 1 - int i))")
    auto

definition sendRequestStream ::
  "'a json \<Rightarrow> world \<Rightarrow> nat \<Rightarrow> requestBody \<Rightarrow> RetryOptions list \<Rightarrow> streamReader outcome" where
  "sendRequestStream js w limit reqBody retryOpts =
     (let options = complete NewDefaultRetryOptions retryOpts in
      case reqBody of
        BodyUnreadable err \<Rightarrow>
          \<lparr>returned = Inl (FailedToReadRequestBody err), trail = [], events = []\<rparr>
      | _ \<Rightarrow> sendRequestStreamLoop js w limit options 0 [])"


section \<open>Vocabulary of the statements\<close>

text \<open>
  A line of the body is written without its line feed; \<open>line l\<close> is the line as
  \<open>ReadBytes\<close> returns it. A noise line is a line that, once trimmed, does not begin with
  \<open>headerData\<close>. A data line with payload \<open>p\<close> begins with \<open>headerData\<close> but not with
  \<open>errorPrefix\<close>, and \<open>p\<close> is what follows \<open>headerData\<close>.
\<close>

definition line :: "string \<Rightarrow> string" where
  "line l = l @ [CHR 0x0A]"

definition lines :: "string list \<Rightarrow> string" where
  "lines ls = concat (map line ls)"

definition isNoiseLine :: "string \<Rightarrow> bool" where
  "isNoiseLine l = (CHR 0x0A \<notin> set l \<and> \<not> HasPrefix (TrimSpace (line l)) headerData)"

definition isDataLine :: "string \<Rightarrow> string \<Rightarrow> bool" where
  "isDataLine l p =
     (CHR 0x0A \<notin> set l \<and> HasPrefix (TrimSpace (line l)) headerData
      \<and> \<not> HasPrefix (TrimSpace (line l)) errorPrefix
      \<and> TrimPrefix (TrimSpace (line l)) headerData = p)"

text \<open>The results of \<open>n\<close> calls of \<open>Recv\<close> in a row, and the reader after the last.\<close>

fun RecvTimes :: "'a json \<Rightarrow> nat \<Rightarrow> streamReader \<Rightarrow> (error + 'a) list \<times> streamReader" where
  "RecvTimes js 0 stream = ([], stream)"
| "RecvTimes js (Suc n) stream =
     (case Recv js stream of
        (r, stream') \<Rightarrow> (case RecvTimes js n stream' of (rs, stream'') \<Rightarrow> (r # rs, stream'')))"

text \<open>
  A decoder for the worked examples. It agrees with \<open>encoding/json\<close> on the inputs used
  there: a payload is accepted when it is enclosed in braces (its bytes stand for the
  decoded struct), and the error envelopes \<open>{"error":{"message":"boom"}}\<close> and
  \<open>{"error":{"message":""}}\<close> decode to an \<open>ErrorResponse\<close> with that message.
\<close>

definition exampleEnvelope :: "string \<Rightarrow> string + ErrorResponse" where
  "exampleEnvelope s =
     (if s = ''{\"error\":{\"message\":\"boom\"}}''
      then Inr \<lparr>Error = Some \<lparr>Message = ''boom'', HTTPStatusCode = 0\<rparr>\<rparr>
      else if s = ''{\"error\":{\"message\":\"\"}}''
      then Inr \<lparr>Error = Some \<lparr>Message = [], HTTPStatusCode = 0\<rparr>\<rparr>
      else Inl ''invalid character'')"

definition examplePayload :: "string \<Rightarrow> string + string" where
  "examplePayload s =
     (if s \<noteq> [] \<and> hd s = CHR ''{'' \<and> last s = CHR ''}'' then Inr s
      else Inl ''invalid character'')"

definition exampleJSON :: "string json" where
  "exampleJSON =
     \<lparr>Unmarshal = examplePayload,
      UnmarshalErrorResponse = (\<lambda>s. map_sum id Some (exampleEnvelope s)),
      Decode = examplePayload,
      DecodeErrorResponse = exampleEnvelope,
      zero = []\<rparr>"

definition newReader :: "nat \<Rightarrow> string \<Rightarrow> streamReader" where
  "newReader limit bytes =
     \<lparr>emptyMessagesLimit = limit, isFinished = False,
      reader = \<lparr>pending = bytes, atEnd = EOF\<rparr>, errBuffer = []\<rparr>"

definition reply :: "int \<Rightarrow> string \<Rightarrow> doResult" where
  "reply code bytes =
     DoReturned \<lparr>StatusCode = code, Status = [], Body = \<lparr>pending = bytes, atEnd = EOF\<rparr>\<rparr>"

definition exampleWorld :: "(nat \<Rightarrow> doResult) \<Rightarrow> (nat \<Rightarrow> bool) \<Rightarrow> world" where
  "exampleWorld replies cancelled =
     \<lparr>httpDo = replies, draw = (\<lambda>i. 250000000 + i), ctxDone = cancelled,
      ctxErr = ''context canceled''\<rparr>"

section \<open>Properties\<close>

declare processLinesLoop.simps [simp del]
declare sendRequestLoop.simps [simp del]
declare sendRequestStreamLoop.simps [simp del]

subsection \<open>Merging retry options\<close>

lemma appendCodes_shape:
  "\<exists>ys. appendCodes rc codes = rc @ ys \<and> distinct ys \<and> set ys = set codes - set rc"
proof (induction codes arbitrary: rc)
  case Nil
  show ?case by simp
next
  case (Cons code codes)
  show ?case
  proof (cases "code \<in> set rc")
    case True
    with Cons.IH [of rc] show ?thesis by auto
  next
    case False
    from Cons.IH [of "rc @ [code]"] obtain ys where
      ys: "appendCodes (rc @ [code]) codes = (rc @ [code]) @ ys" "distinct ys"
          "set ys = set codes - set (rc @ [code])" by blast
    with False have "appendCodes rc (code # codes) = rc @ (code # ys) \<and> distinct (code # ys)
        \<and> set (code # ys) = set (code # codes) - set rc"
      by auto
    then show ?thesis by blast
  qed
qed

lemma Retries_completeOne:
  "Retries (completeOne r opt) = (if Retries opt > 0 then Retries opt else Retries r)"
  by (simp add: completeOne_def)

lemma RetryAboveCode_completeOne:
  "RetryAboveCode (completeOne r opt) =
     (if RetryAboveCode opt > 0 then RetryAboveCode opt else RetryAboveCode r)"
  by (simp add: completeOne_def)

lemma RetryCodes_completeOne:
  "RetryCodes (completeOne r opt) = appendCodes (RetryCodes r) (RetryCodes opt)"
  by (simp add: completeOne_def)

lemma complete_snoc: "complete r (opts @ [opt]) = completeOne (complete r opts) opt"
  by (induction opts arbitrary: r) simp_all

lemma Retries_complete_nonneg: "0 \<le> Retries r \<Longrightarrow> 0 \<le> Retries (complete r opts)"
  by (induction opts arbitrary: r) (simp_all add: Retries_completeOne)

lemma distinct_appendCodes: "distinct rc \<Longrightarrow> distinct (appendCodes rc codes)"
  using appendCodes_shape [of rc codes] by auto

lemma set_appendCodes: "set (appendCodes rc codes) = set rc \<union> set codes"
  using appendCodes_shape [of rc codes] by auto

lemma distinct_complete: "distinct (RetryCodes r) \<Longrightarrow> distinct (RetryCodes (complete r opts))"
  by (induction opts arbitrary: r) (simp_all add: RetryCodes_completeOne distinct_appendCodes)

lemma set_complete:
  "set (RetryCodes (complete r opts)) = set (RetryCodes r) \<union> (\<Union>opt \<in> set opts. set (RetryCodes opt))"
  by (induction opts arbitrary: r) (auto simp: RetryCodes_completeOne set_appendCodes)

text \<open>
  C9. Merging one more override \<open>opt\<close> after the overrides \<open>opts\<close>: its \<open>Retries\<close>
  replaces the current value only if it is positive; its \<open>RetryAboveCode\<close> replaces the
  current value only if it is positive; the codes that the current slice does not hold are
  appended, each once. Merged onto the default options, the codes are the union of the
  overrides' codes without duplicates, and \<open>Retries\<close> is not negative.
\<close>

theorem complete_merge:
  "Retries (complete r (opts @ [opt])) =
     (if Retries opt > 0 then Retries opt else Retries (complete r opts))
   \<and> RetryAboveCode (complete r (opts @ [opt])) =
     (if RetryAboveCode opt > 0 then RetryAboveCode opt else RetryAboveCode (complete r opts))
   \<and> (\<exists>new. RetryCodes (complete r (opts @ [opt])) = RetryCodes (complete r opts) @ new
          \<and> distinct new
          \<and> set new = set (RetryCodes opt) - set (RetryCodes (complete r opts)))
   \<and> set (RetryCodes (complete NewDefaultRetryOptions opts)) =
       (\<Union>opt \<in> set opts. set (RetryCodes opt))
   \<and> distinct (RetryCodes (complete NewDefaultRetryOptions opts))
   \<and> 0 \<le> Retries (complete NewDefaultRetryOptions opts)"
proof -
  have "distinct (RetryCodes (complete NewDefaultRetryOptions opts))"
    by (rule distinct_complete) (simp add: NewDefaultRetryOptions_def)
  moreover have "0 \<le> Retries (complete NewDefaultRetryOptions opts)"
    by (rule Retries_complete_nonneg) (simp add: NewDefaultRetryOptions_def)
  moreover have "set (RetryCodes (complete NewDefaultRetryOptions opts)) =
       (\<Union>opt \<in> set opts. set (RetryCodes opt))"
    by (simp add: set_complete) (simp add: NewDefaultRetryOptions_def)
  ultimately show ?thesis
    using appendCodes_shape [of "RetryCodes (complete r opts)" "RetryCodes opt"]
    by (simp add: complete_snoc Retries_completeOne RetryAboveCode_completeOne
        RetryCodes_completeOne)
qed

theorem complete_merge_witness:
  "complete NewDefaultRetryOptions
     [\<lparr>Retries = 2, RetryAboveCode = 0, RetryCodes = [503, 429]\<rparr>,
      \<lparr>Retries = - 1, RetryAboveCode = 499, RetryCodes = [429, 502, 502]\<rparr>]
   = \<lparr>Retries = 2, RetryAboveCode = 499, RetryCodes = [503, 429, 502]\<rparr>
   \<and> Retries (complete NewDefaultRetryOptions
        ([\<lparr>Retries = 2, RetryAboveCode = 0, RetryCodes = [503, 429]\<rparr>] @
         [\<lparr>Retries = - 1, RetryAboveCode = 499, RetryCodes = [429, 502, 502]\<rparr>])) = 2
   \<and> (\<exists>new. [503, 429, 502] = [503, 429] @ new \<and> distinct new \<and> set new = {429, 502} - {503, 429 :: int})"
  using complete_merge [of NewDefaultRetryOptions
     "[\<lparr>Retries = 2, RetryAboveCode = 0, RetryCodes = [503, 429]\<rparr>]"
     "\<lparr>Retries = - 1, RetryAboveCode = 499, RetryCodes = [429, 502, 502]\<rparr>"
     ]
  by (simp add: NewDefaultRetryOptions_def completeOne_def)

subsection \<open>Reading lines\<close>

lemma HasPrefix_errorPrefix: "HasPrefix s errorPrefix \<Longrightarrow> HasPrefix s headerData"
  by (auto simp: HasPrefix_def errorPrefix_def headerData_def take_Suc_conv_app_nth)

lemma dropWhile_upto: "d \<notin> set l \<Longrightarrow> dropWhile (\<lambda>c. c \<noteq> d) (l @ d # rest) = d # rest"
  by (induction l) auto

lemma takeWhile_upto: "d \<notin> set l \<Longrightarrow> takeWhile (\<lambda>c. c \<noteq> d) (l @ d # rest) = l"
  by (induction l) auto

lemma dropWhile_absent: "d \<notin> set l \<Longrightarrow> dropWhile (\<lambda>c. c \<noteq> d) l = []"
  by (induction l) auto

lemma ReadBytes_line:
  "CHR 0x0A \<notin> set l \<Longrightarrow> pending b = line l @ rest \<Longrightarrow>
   ReadBytes b CHR 0x0A = (line l, None, b\<lparr>pending := rest\<rparr>)"
  by (simp add: ReadBytes_def line_def dropWhile_upto takeWhile_upto)

lemma ReadBytes_end:
  "CHR 0x0A \<notin> set (pending b) \<Longrightarrow>
   ReadBytes b CHR 0x0A = (pending b, Some (atEnd b), b\<lparr>pending := []\<rparr>)"
  by (simp add: ReadBytes_def dropWhile_absent)

text \<open>One iteration on a noise line.\<close>

lemma loop_noise_step:
  assumes "isNoiseLine l" "pending (reader stream) = line l @ rest"
  shows "processLinesLoop js count False stream =
     (if count + 1 > emptyMessagesLimit stream then
        (Inl ErrTooManyEmptyStreamMessages,
         stream\<lparr>reader := (reader stream)\<lparr>pending := rest\<rparr>,
                errBuffer := errBuffer stream @ TrimSpace (line l)\<rparr>)
      else processLinesLoop js (count + 1) False
         (stream\<lparr>reader := (reader stream)\<lparr>pending := rest\<rparr>,
                errBuffer := errBuffer stream @ TrimSpace (line l)\<rparr>))"
proof -
  from assms have nl: "CHR 0x0A \<notin> set l" and np: "\<not> HasPrefix (TrimSpace (line l)) headerData"
    by (simp_all add: isNoiseLine_def)
  from np have ne: "\<not> HasPrefix (TrimSpace (line l)) errorPrefix"
    using HasPrefix_errorPrefix by blast
  show ?thesis
    by (subst processLinesLoop.simps)
       (simp add: ReadBytes_line [OF nl assms(2)] np ne Let_def)
qed

lemma loop_data_step:
  assumes "isDataLine l p" "pending (reader stream) = line l @ rest"
  shows "processLinesLoop js count False stream =
     (if p = ''[DONE]'' then
        (Inl EOF, stream\<lparr>reader := (reader stream)\<lparr>pending := rest\<rparr>, isFinished := True\<rparr>)
      else (case Unmarshal js p of
              Inl e \<Rightarrow> (Inl (UnmarshalFailure e), stream\<lparr>reader := (reader stream)\<lparr>pending := rest\<rparr>\<rparr>)
            | Inr x \<Rightarrow> (Inr x, stream\<lparr>reader := (reader stream)\<lparr>pending := rest\<rparr>\<rparr>)))"
proof -
  from assms have nl: "CHR 0x0A \<notin> set l" and hp: "HasPrefix (TrimSpace (line l)) headerData"
    and ne: "\<not> HasPrefix (TrimSpace (line l)) errorPrefix"
    and p: "TrimPrefix (TrimSpace (line l)) headerData = p"
    by (simp_all add: isDataLine_def)
  show ?thesis
    by (subst processLinesLoop.simps)
       (simp add: ReadBytes_line [OF nl assms(2)] hp ne p Let_def)
qed

lemma loop_noise_run:
  assumes "list_all isNoiseLine noise"
    and "count + length noise \<le> emptyMessagesLimit stream"
    and "pending (reader stream) = lines noise @ rest"
  shows "processLinesLoop js count False stream =
     processLinesLoop js (count + length noise) False
       (stream\<lparr>reader := (reader stream)\<lparr>pending := rest\<rparr>,
              errBuffer := errBuffer stream @ concat (map (\<lambda>l. TrimSpace (line l)) noise)\<rparr>)"
  using assms
proof (induction noise arbitrary: count stream)
  case Nil
  then have "rest = pending (reader stream)" by (simp add: lines_def)
  then show ?case by simp
next
  case (Cons l noise)
  let ?s = "stream\<lparr>reader := (reader stream)\<lparr>pending := lines noise @ rest\<rparr>,
                errBuffer := errBuffer stream @ TrimSpace (line l)\<rparr>"
  from Cons.prems have l: "isNoiseLine l" and p: "pending (reader stream) = line l @ (lines noise @ rest)"
    by (simp_all add: lines_def)
  from Cons.prems have c: "\<not> count + 1 > emptyMessagesLimit stream" by simp
  have "processLinesLoop js count False stream = processLinesLoop js (count + 1) False ?s"
    using loop_noise_step [OF l p, of js count] c by simp
  also have "\<dots> = processLinesLoop js (count + 1 + length noise) False
       (?s\<lparr>reader := (reader ?s)\<lparr>pending := rest\<rparr>,
              errBuffer := errBuffer ?s @ concat (map (\<lambda>l. TrimSpace (line l)) noise)\<rparr>)"
    using Cons.prems by (intro Cons.IH) simp_all
  finally show ?case by simp
qed

lemma loop_noise_overrun:
  assumes "list_all isNoiseLine noise"
    and "count \<le> emptyMessagesLimit stream"
    and "count + length noise > emptyMessagesLimit stream"
    and "pending (reader stream) = lines noise @ rest"
  shows "fst (processLinesLoop js count False stream) = Inl ErrTooManyEmptyStreamMessages"
  using assms
proof (induction noise arbitrary: count stream)
  case Nil
  then show ?case by simp
next
  case (Cons l noise)
  let ?s = "stream\<lparr>reader := (reader stream)\<lparr>pending := lines noise @ rest\<rparr>,
                errBuffer := errBuffer stream @ TrimSpace (line l)\<rparr>"
  from Cons.prems have l: "isNoiseLine l" and p: "pending (reader stream) = line l @ (lines noise @ rest)"
    by (simp_all add: lines_def)
  show ?case
  proof (cases "count + 1 > emptyMessagesLimit stream")
    case True
    then show ?thesis using loop_noise_step [OF l p, of js count] by simp
  next
    case False
    then have "processLinesLoop js count False stream = processLinesLoop js (count + 1) False ?s"
      using loop_noise_step [OF l p, of js count] by simp
    moreover have "fst (processLinesLoop js (count + 1) False ?s) = Inl ErrTooManyEmptyStreamMessages"
      using Cons.prems False by (intro Cons.IH) simp_all
    ultimately show ?thesis by simp
  qed
qed

end
